theory Spec2Isabelle
  imports Main
begin

section \<open>JavaScript values\<close>

text \<open>
  The repository is a plugin contract: one enumeration with a runtime object
  (\<^verbatim>\<open>src/out/index.js\<close>) and type declarations (\<^verbatim>\<open>src/out/index.d.ts\<close>,
  with an older copy in \<^verbatim>\<open>src/unnamed/part_000\<close>).

  Values are the data a host and an adapter exchange. An object is the list of its
  properties, newest binding first; a property key is a string, as in JavaScript.
  Numbers of this contract are ordinals, lines, columns, offsets and exit codes, so
  \<open>Num\<close> carries an integer; no statement below depends on a number being integral.
  \<open>Inst c\<close> is an instance of the imported class \<open>c\<close> (\<^verbatim>\<open>Uri\<close>, \<^verbatim>\<open>TextDocument\<close>),
  \<open>Fn f\<close> a function value named \<open>f\<close>, \<open>Prom v\<close> a promise that fulfils with \<open>v\<close>.
\<close>

datatype jsval =
    Undefined
  | Null
  | Bool bool
  | Num int
  | Str string
  | Arr "jsval list"
  | Obj "(string \<times> jsval) list"
  | Inst string
  | Fn string
  | Prom jsval

type_synonym jsobj = "(string \<times> jsval) list"






text \<open>Reading \<^verbatim>\<open>obj[k]\<close> and the assignment \<^verbatim>\<open>obj[k] = v\<close>.\<close>

definition get_prop :: "jsobj \<Rightarrow> string \<Rightarrow> jsval option" where
  "get_prop ps k = map_of ps k"

definition set_prop :: "jsobj \<Rightarrow> string \<Rightarrow> jsval \<Rightarrow> jsobj" where
  "set_prop ps k v = (k, v) # filter (\<lambda>p. fst p \<noteq> k) ps"


definition own_keys :: "jsobj \<Rightarrow> string list" where
  "own_keys ps = map fst ps"

fun prop_of :: "jsval \<Rightarrow> string \<Rightarrow> jsval option" where
  "prop_of (Obj ps) k = get_prop ps k"
| "prop_of _ k = None"

section \<open>The runtime enumeration object of \<^verbatim>\<open>index.js\<close>\<close>







section \<open>Declared types\<close>

text \<open>
  A declaration of \<^verbatim>\<open>index.d.ts\<close> is a term of \<open>ty\<close>. An object type lists its
  properties as (name, optional, type), in declaration order, with its string index
  signature when it has one. A function type has the type of its one parameter and of its
  result. \<open>TClass\<close> is a class imported from \<^verbatim>\<open>vscode\<close>, which is not part of the
  repository.
\<close>

datatype ty =
    TString
  | TNumber
  | TBoolean
  | TUnknown
  | TClass string
  | TEnum "(string \<times> int) list"
  | TArray ty
  | TTuple "ty list"
  | TObject "(string \<times> bool \<times> ty) list" "ty option"
  | TUnion ty ty
  | TInter ty ty
  | TFun ty ty
  | TPromise ty

text \<open>
  Which values a type admits. Typing is structural: an object conforms when each declared
  property is there with a conforming value (an optional one may be missing or undefined),
  whatever other properties it carries; under an index signature every property value
  conforms to the signature's type. A function value shows no more than that it is a
  function: what it takes and returns is the declaration's word, not a shape of the value.
\<close>

fun conforms :: "jsval \<Rightarrow> ty \<Rightarrow> bool" where
  "conforms v TUnknown = True"
| "conforms v TString = (case v of Str s \<Rightarrow> True | _ \<Rightarrow> False)"
| "conforms v TNumber = (case v of Num n \<Rightarrow> True | _ \<Rightarrow> False)"
| "conforms v TBoolean = (case v of Bool b \<Rightarrow> True | _ \<Rightarrow> False)"
| "conforms v (TClass c) = (case v of Inst d \<Rightarrow> d = c | _ \<Rightarrow> False)"
| "conforms v (TEnum ms) = (case v of Num n \<Rightarrow> n \<in> set (map snd ms) | _ \<Rightarrow> False)"
| "conforms v (TArray t) = (case v of Arr vs \<Rightarrow> (\<forall>x \<in> set vs. conforms x t) | _ \<Rightarrow> False)"
| "conforms v (TTuple ts) = (case v of Arr vs \<Rightarrow> list_all2 conforms vs ts | _ \<Rightarrow> False)"
| "conforms v (TObject fs ix) =
     (case v of
        Obj ps \<Rightarrow>
          (\<forall>(k, opt, t) \<in> set fs.
             case get_prop ps k of
               None \<Rightarrow> opt
             | Some x \<Rightarrow> (opt \<and> x = Undefined) \<or> conforms x t)
          \<and> (case ix of
               None \<Rightarrow> True
             | Some t \<Rightarrow> (\<forall>k \<in> set (own_keys ps).
                           case get_prop ps k of None \<Rightarrow> True | Some x \<Rightarrow> conforms x t))
      | _ \<Rightarrow> False)"
| "conforms v (TUnion a b) = (conforms v a \<or> conforms v b)"
| "conforms v (TInter a b) = (conforms v a \<and> conforms v b)"
| "conforms v (TFun p r) = (case v of Fn f \<Rightarrow> True | _ \<Rightarrow> False)"
| "conforms v (TPromise t) = (case v of Prom x \<Rightarrow> conforms x t | _ \<Rightarrow> False)"

text \<open>Reading a declaration: its properties, their names, types and optionality.\<close>

fun fields :: "ty \<Rightarrow> (string \<times> bool \<times> ty) list" where
  "fields (TObject fs ix) = fs"
| "fields _ = []"

definition keyof :: "ty \<Rightarrow> string list" where
  "keyof t = map fst (fields t)"

definition field_type :: "ty \<Rightarrow> string \<Rightarrow> ty option" where
  "field_type t k = map_option snd (map_of (fields t) k)"

definition field_optional :: "ty \<Rightarrow> string \<Rightarrow> bool option" where
  "field_optional t k = map_option fst (map_of (fields t) k)"

definition required_fields :: "ty \<Rightarrow> string list" where
  "required_fields t = map fst (filter (\<lambda>f. \<not> fst (snd f)) (fields t))"

definition optional_fields :: "ty \<Rightarrow> string list" where
  "optional_fields t = map fst (filter (\<lambda>f. fst (snd f)) (fields t))"


fun result_type :: "ty \<Rightarrow> ty option" where
  "result_type (TFun p r) = Some r"
| "result_type _ = None"

fun returns_promise :: "ty \<Rightarrow> bool" where
  "returns_promise (TFun p (TPromise r)) = True"
| "returns_promise _ = False"

text \<open>
  Whether a type knows a property name: the name is declared, or the type has an index
  signature. An intersection knows what either side knows, a union what both sides know.
\<close>

fun declares :: "ty \<Rightarrow> string \<Rightarrow> bool" where
  "declares (TObject fs ix) k = (k \<in> set (map fst fs) \<or> ix \<noteq> None)"
| "declares (TInter a b) k = (declares a k \<or> declares b k)"
| "declares (TUnion a b) k = (declares a k \<and> declares b k)"
| "declares _ k = False"

text \<open>
  The mapped type \<^verbatim>\<open>{ [key in keyof T]: U }\<close>: one property for each key of \<open>T\<close>, optional
  where \<open>T\<close> has it optional, of type \<open>U\<close>; no index signature.
\<close>

definition mapped_keyof :: "ty \<Rightarrow> ty \<Rightarrow> ty" where
  "mapped_keyof t u = TObject (map (\<lambda>f. (fst f, fst (snd f), u)) (fields t)) None"

subsection \<open>\<^verbatim>\<open>src/out/index.d.ts\<close>\<close>

definition LinterOffenseSeverity :: "ty" where
  "LinterOffenseSeverity =
     TEnum [(''error'', 0), (''warning'', 1), (''information'', 2), (''hint'', 3)]"

text \<open>
  The two members of the union of \<^verbatim>\<open>inlineFix\<close> (lines 71 to 84), in declaration order:
  the one with \<^verbatim>\<open>start\<close> and \<^verbatim>\<open>end\<close>, then the one with \<^verbatim>\<open>offset\<close>.
\<close>

definition InlineFixPosition :: "ty" where
  "InlineFixPosition = TObject [(''column'', False, TNumber), (''line'', False, TNumber)] None"

definition InlineFixRange :: "ty" where
  "InlineFixRange =
     TObject [(''replacement'', False, TString),
              (''start'', False, InlineFixPosition),
              (''end'', False, InlineFixPosition)] None"

definition InlineFixOffset :: "ty" where
  "InlineFixOffset =
     TObject [(''replacement'', False, TString),
              (''offset'', False, TTuple [TNumber, TNumber])] None"

definition LinterOffense :: "ty" where
  "LinterOffense =
     TObject [(''code'', False, TString),
              (''message'', False, TString),
              (''source'', False, TString),
              (''uri'', False, TClass ''Uri''),
              (''severity'', False, LinterOffenseSeverity),
              (''lineStart'', False, TNumber),
              (''columnStart'', False, TNumber),
              (''lineEnd'', False, TNumber),
              (''columnEnd'', False, TNumber),
              (''correctable'', False, TBoolean),
              (''docsUrl'', True, TString),
              (''inlineFix'', True, TUnion InlineFixRange InlineFixOffset),
              (''meta'', True, TUnknown)] None"

definition LinterParams :: "ty" where
  "LinterParams =
     TObject [(''uri'', False, TClass ''Uri''),
              (''stdout'', False, TString),
              (''stderr'', False, TString),
              (''status'', False, TNumber)] None"

definition Line :: "ty" where
  "Line = TObject [(''text'', False, TString), (''number'', False, TNumber)] None"

definition LinterGetIgnoreEolPragmaFunction :: "ty" where
  "LinterGetIgnoreEolPragmaFunction =
     TFun (TObject [(''line'', False, Line), (''code'', False, TString)] None)
          (TPromise TString)"

definition LinterGetIgnoreLinePragmaFunction :: "ty" where
  "LinterGetIgnoreLinePragmaFunction =
     TFun (TObject [(''line'', False, Line), (''code'', False, TString),
                    (''indent'', False, TString)] None)
          (TPromise TString)"

definition LinterGetIgnoreFilePragmaFunction :: "ty" where
  "LinterGetIgnoreFilePragmaFunction =
     TFun (TObject [(''line'', False, Line), (''code'', False, TString),
                    (''indent'', False, TString),
                    (''document'', False, TClass ''TextDocument'')] None)
          (TPromise TString)"

definition LinterParseFixOutputFunction :: "ty" where
  "LinterParseFixOutputFunction =
     TFun (TObject [(''input'', False, TString), (''stdout'', False, TString),
                    (''stderr'', False, TString), (''uri'', False, TClass ''Uri'')] None)
          (TPromise TString)"

definition LinterGetOffensesFunction :: "ty" where
  "LinterGetOffensesFunction = TFun LinterParams (TPromise (TArray LinterOffense))"

definition Linter :: "ty" where
  "Linter =
     TObject [(''getOffenses'', False, LinterGetOffensesFunction),
              (''getIgnoreEolPragma'', True, LinterGetIgnoreEolPragmaFunction),
              (''getIgnoreLinePragma'', True, LinterGetIgnoreLinePragmaFunction),
              (''getIgnoreFilePragma'', True, LinterGetIgnoreFilePragmaFunction),
              (''parseFixOutput'', True, LinterParseFixOutputFunction)] None"

definition Command :: "ty" where
  "Command = TUnion (TArray TString) (TArray (TArray TString))"

definition LinterConfigType :: "ty" where
  "LinterConfigType =
     TObject [(''name'', False, TString),
              (''command'', False, Command),
              (''configFiles'', False, TArray TString),
              (''enabled'', False, TBoolean),
              (''languages'', False, TArray TString),
              (''capabilities'', False, TArray TString),
              (''args'', True,
                 TObject []
                   (Some (TObject [(''languages'', True, TArray TString),
                                   (''extensions'', True, TArray TString),
                                   (''shebangs'', True, TArray TString)] None))),
              (''url'', False, TString),
              (''when'', False, TArray TString),
              (''importPath'', True, TString)] None"

definition LinterConfig :: "ty" where
  "LinterConfig = TInter LinterConfigType (mapped_keyof LinterConfigType TUnknown)"

text \<open>The capability names listed in the comment of \<^verbatim>\<open>capabilities\<close> (lines 212 to 220).\<close>

definition documented_capabilities :: "string list" where
  "documented_capabilities =
     [''ignore-all'', ''ignore-line'', ''ignore-eol'', ''fix-one'', ''fix-category'', ''fix-all'']"

subsection \<open>\<^verbatim>\<open>src/unnamed/part_000\<close>, the older declarations\<close>

text \<open>
  The enumeration, \<^verbatim>\<open>LinterParams\<close> and \<^verbatim>\<open>Line\<close> read the same in both files and
  are not repeated. The offense record has no \<^verbatim>\<open>inlineFix\<close> and no \<^verbatim>\<open>meta\<close>, the
  operations return their result directly, \<^verbatim>\<open>getIgnoreFilePragma\<close> takes no
  \<^verbatim>\<open>document\<close> and \<^verbatim>\<open>parseFixOutput\<close> no \<^verbatim>\<open>uri\<close>.
\<close>

definition LinterOffense_part_000 :: "ty" where
  "LinterOffense_part_000 =
     TObject [(''code'', False, TString),
              (''message'', False, TString),
              (''source'', False, TString),
              (''uri'', False, TClass ''Uri''),
              (''severity'', False, LinterOffenseSeverity),
              (''lineStart'', False, TNumber),
              (''columnStart'', False, TNumber),
              (''lineEnd'', False, TNumber),
              (''columnEnd'', False, TNumber),
              (''correctable'', False, TBoolean),
              (''docsUrl'', True, TString)] None"

definition LinterGetIgnoreEolPragmaFunction_part_000 :: "ty" where
  "LinterGetIgnoreEolPragmaFunction_part_000 =
     TFun (TObject [(''line'', False, Line), (''code'', False, TString)] None) TString"

definition LinterGetIgnoreLinePragmaFunction_part_000 :: "ty" where
  "LinterGetIgnoreLinePragmaFunction_part_000 =
     TFun (TObject [(''line'', False, Line), (''code'', False, TString),
                    (''indent'', False, TString)] None) TString"

definition LinterGetIgnoreFilePragmaFunction_part_000 :: "ty" where
  "LinterGetIgnoreFilePragmaFunction_part_000 =
     TFun (TObject [(''line'', False, Line), (''code'', False, TString),
                    (''indent'', False, TString)] None) TString"

definition LinterParseFixOutputFunction_part_000 :: "ty" where
  "LinterParseFixOutputFunction_part_000 =
     TFun (TObject [(''input'', False, TString), (''stdout'', False, TString),
                    (''stderr'', False, TString)] None) TString"

definition LinterGetOffensesFunction_part_000 :: "ty" where
  "LinterGetOffensesFunction_part_000 = TFun LinterParams (TArray LinterOffense_part_000)"

definition Linter_part_000 :: "ty" where
  "Linter_part_000 =
     TObject [(''getOffenses'', False, LinterGetOffensesFunction_part_000),
              (''getIgnoreEolPragma'', True, LinterGetIgnoreEolPragmaFunction_part_000),
              (''getIgnoreLinePragma'', True, LinterGetIgnoreLinePragmaFunction_part_000),
              (''getIgnoreFilePragma'', True, LinterGetIgnoreFilePragmaFunction_part_000),
              (''parseFixOutput'', True, LinterParseFixOutputFunction_part_000)] None"

section \<open>Reading the contract\<close>


text \<open>A property is present when the object has it with a value other than undefined.\<close>

definition present :: "jsval \<Rightarrow> string \<Rightarrow> bool" where
  "present v k = (case prop_of v k of None \<Rightarrow> False | Some x \<Rightarrow> x \<noteq> Undefined)"







subsection \<open>Sample records\<close>

text \<open>
  An offense as in the specification's example (code E001, severity error), with the
  positions and the inline fix left open.
\<close>

definition sample_offense :: "int \<Rightarrow> int \<Rightarrow> int \<Rightarrow> int \<Rightarrow> jsval \<Rightarrow> jsval" where
  "sample_offense ls cs le ce fix =
     Obj [(''code'', Str ''E001''),
          (''message'', Str ''unused variable''),
          (''source'', Str ''luacheck''),
          (''uri'', Inst ''Uri''),
          (''severity'', Num 0),
          (''lineStart'', Num ls),
          (''columnStart'', Num cs),
          (''lineEnd'', Num le),
          (''columnEnd'', Num ce),
          (''correctable'', Bool True),
          (''inlineFix'', fix)]"

definition fix_by_offset :: "jsval" where
  "fix_by_offset = Obj [(''replacement'', Str ''foo''), (''offset'', Arr [Num 12, Num 22])]"

definition fix_by_range :: "jsval" where
  "fix_by_range =
     Obj [(''replacement'', Str ''foo''),
          (''start'', Obj [(''column'', Num 0), (''line'', Num 3)]),
          (''end'', Obj [(''column'', Num 10), (''line'', Num 3)])]"

definition fix_two_shapes :: "jsval" where
  "fix_two_shapes =
     Obj [(''replacement'', Str ''foo''),
          (''offset'', Arr [Num 12, Num 22]),
          (''start'', Obj [(''column'', Num 0), (''line'', Num 3)]),
          (''end'', Obj [(''column'', Num 10), (''line'', Num 3)])]"

text \<open>A configuration record with the required properties and the given capabilities.\<close>

definition sample_config :: "string list \<Rightarrow> jsobj" where
  "sample_config caps =
     [(''name'', Str ''luacheck''),
      (''command'', Arr [Str ''luacheck'', Str ''$file'']),
      (''configFiles'', Arr [Str ''.luacheckrc'']),
      (''enabled'', Bool True),
      (''languages'', Arr [Str ''lua'']),
      (''capabilities'', Arr (map Str caps)),
      (''url'', Str ''https://github.com/mpeterv/luacheck''),
      (''when'', Arr [])]"

section \<open>Facts about objects and conformance\<close>



lemma get_prop_set_prop:
  "get_prop (set_prop ps k v) k' = (if k' = k then Some v else get_prop ps k')"
  by (induction ps) (auto simp: get_prop_def set_prop_def)

lemma conforms_set_prop:
  assumes c: "conforms (Obj ps) (TObject fs None)"
    and v: "\<And>opt t. (k, opt, t) \<in> set fs \<Longrightarrow> conforms v t"
  shows "conforms (Obj (set_prop ps k v)) (TObject fs None)"
proof -
  have "case get_prop (set_prop ps k v) k' of
          None \<Rightarrow> opt | Some x \<Rightarrow> (opt \<and> x = Undefined) \<or> conforms x t"
    if f: "(k', opt, t) \<in> set fs" for k' opt t
  proof (cases "k' = k")
    case True
    then show ?thesis using v f by (simp add: get_prop_set_prop)
  next
    case False
    from c f have "case get_prop ps k' of
          None \<Rightarrow> opt | Some x \<Rightarrow> (opt \<and> x = Undefined) \<or> conforms x t"
      by fastforce
    then show ?thesis using False by (simp add: get_prop_set_prop)
  qed
  then show ?thesis by auto
qed

lemma conforms_object_cases:
  "conforms v (TObject fs ix) \<Longrightarrow> \<exists>ps. v = Obj ps"
  by (cases v) simp_all

lemma conforms_required:
  assumes "conforms v (TObject fs ix)" and "(k, False, t) \<in> set fs"
  shows "\<exists>x. prop_of v k = Some x \<and> conforms x t"
proof -
  from assms(1) obtain ps where v: "v = Obj ps" by (blast dest: conforms_object_cases)
  from assms have "case get_prop ps k of
      None \<Rightarrow> False | Some x \<Rightarrow> (False \<and> x = Undefined) \<or> conforms x t"
    unfolding v by fastforce
  then show ?thesis by (simp add: v split: option.splits)
qed

lemma conforms_optional:
  assumes "conforms v (TObject fs ix)" and "(k, True, t) \<in> set fs"
    and "prop_of v k = Some x" and "x \<noteq> Undefined"
  shows "conforms x t"
proof -
  from assms(1) obtain ps where v: "v = Obj ps" by (blast dest: conforms_object_cases)
  from assms(1,2) have "case get_prop ps k of
      None \<Rightarrow> True | Some x \<Rightarrow> (True \<and> x = Undefined) \<or> conforms x t"
    unfolding v by fastforce
  with assms(3,4) show ?thesis by (simp add: v)
qed

lemma conforms_string: "conforms x TString \<Longrightarrow> \<exists>s. x = Str s"
  by (cases x) simp_all

lemma conforms_number: "conforms x TNumber \<Longrightarrow> \<exists>n. x = Num n"
  by (cases x) simp_all

lemma conforms_number_pair:
  assumes "conforms x (TTuple [TNumber, TNumber])"
  shows "\<exists>a b. x = Arr [Num a, Num b]"
proof (cases x)
  case (Arr vs)
  with assms have "list_all2 conforms vs [TNumber, TNumber]" by simp
  then obtain y z where "vs = [y, z]" "conforms y TNumber" "conforms z TNumber"
    by (auto simp: list_all2_Cons2 simp del: conforms.simps)
  then show ?thesis using Arr by (blast dest: conforms_number)
qed (use assms in simp_all)

lemma conforms_string_array:
  assumes "conforms x (TArray TString)"
  shows "\<exists>xs. x = Arr xs \<and> (\<forall>y \<in> set xs. \<exists>s. y = Str s)"
proof (cases x)
  case (Arr xs)
  with assms have "\<forall>y \<in> set xs. conforms y TString" by simp
  then show ?thesis using Arr by (blast dest: conforms_string)
qed (use assms in simp_all)

section \<open>The severity enumeration\<close>




section \<open>The inline fix\<close>

text \<open>Each shape alone conforms, and so does an offense without a fix; a fix with neither does not.\<close>

lemma inline_fix_shapes_conform:
  "conforms (sample_offense 3 0 3 10 fix_by_offset) LinterOffense"
  "conforms (sample_offense 3 0 3 10 fix_by_range) LinterOffense"
  "conforms (sample_offense 3 0 3 10 Undefined) LinterOffense"
  "\<not> conforms (sample_offense 3 0 3 10 (Obj [(''replacement'', Str ''foo'')])) LinterOffense"
  by (simp_all add: sample_offense_def fix_by_offset_def fix_by_range_def LinterOffense_def
      LinterOffenseSeverity_def InlineFixRange_def InlineFixOffset_def InlineFixPosition_def
      get_prop_def)

text \<open>
  C2, as stated, fails: the union of the two object types is not exclusive. An offense
  whose inline fix has \<^verbatim>\<open>offset\<close> together with \<^verbatim>\<open>start\<close> and \<^verbatim>\<open>end\<close>
  conforms to \<^verbatim>\<open>LinterOffense\<close>.
\<close>

theorem inline_fix_two_shapes:
  "conforms (sample_offense 3 0 3 10 fix_two_shapes) LinterOffense
   \<and> present fix_two_shapes ''offset''
   \<and> present fix_two_shapes ''start''
   \<and> present fix_two_shapes ''end''"
  by (simp add: sample_offense_def fix_two_shapes_def LinterOffense_def LinterOffenseSeverity_def
      InlineFixRange_def InlineFixOffset_def InlineFixPosition_def get_prop_def present_def)

text \<open>
  C2, amended. For every record that conforms to \<^verbatim>\<open>LinterOffense\<close> and has an inline
  fix, the fix has a string \<^verbatim>\<open>replacement\<close> and at least one of the two shapes: an
  \<^verbatim>\<open>offset\<close> pair of numbers, or a \<^verbatim>\<open>start\<close> and an \<^verbatim>\<open>end\<close> position. The union
  is exhaustive (never neither); it does not exclude a fix that has both.
\<close>

theorem inline_fix_some_shape:
  assumes "conforms v LinterOffense" and "prop_of v ''inlineFix'' = Some f"
    and "f \<noteq> Undefined"
  shows "(\<exists>r. prop_of f ''replacement'' = Some (Str r))
         \<and> ((\<exists>a b. prop_of f ''offset'' = Some (Arr [Num a, Num b]))
            \<or> (\<exists>s e. prop_of f ''start'' = Some s \<and> prop_of f ''end'' = Some e
                     \<and> conforms s InlineFixPosition \<and> conforms e InlineFixPosition))"
proof -
  have "conforms f (TUnion InlineFixRange InlineFixOffset)"
    by (rule conforms_optional [OF assms(1) [unfolded LinterOffense_def] _ assms(2) assms(3)])
      simp
  then consider (range) "conforms f InlineFixRange" | (offset) "conforms f InlineFixOffset"
    by auto
  then show ?thesis
  proof cases
    case range
    have r: "\<exists>x. prop_of f ''replacement'' = Some x \<and> conforms x TString"
      using range unfolding InlineFixRange_def by (rule conforms_required) simp
    have s: "\<exists>x. prop_of f ''start'' = Some x \<and> conforms x InlineFixPosition"
      using range unfolding InlineFixRange_def by (rule conforms_required) simp
    have e: "\<exists>x. prop_of f ''end'' = Some x \<and> conforms x InlineFixPosition"
      using range unfolding InlineFixRange_def by (rule conforms_required) simp
    from r s e show ?thesis by (blast dest: conforms_string)
  next
    case offset
    have r: "\<exists>x. prop_of f ''replacement'' = Some x \<and> conforms x TString"
      using offset unfolding InlineFixOffset_def by (rule conforms_required) simp
    have p: "\<exists>x. prop_of f ''offset'' = Some x \<and> conforms x (TTuple [TNumber, TNumber])"
      using offset unfolding InlineFixOffset_def by (rule conforms_required) simp
    from r p show ?thesis by (blast dest: conforms_string conforms_number_pair)
  qed
qed

theorem inline_fix_some_shape_witness:
  "(\<exists>r. prop_of fix_by_offset ''replacement'' = Some (Str r))
   \<and> ((\<exists>a b. prop_of fix_by_offset ''offset'' = Some (Arr [Num a, Num b]))
      \<or> (\<exists>s e. prop_of fix_by_offset ''start'' = Some s \<and> prop_of fix_by_offset ''end'' = Some e
               \<and> conforms s InlineFixPosition \<and> conforms e InlineFixPosition))"
proof -
  have c: "conforms (sample_offense 3 0 3 10 fix_by_offset) LinterOffense"
    by (simp add: sample_offense_def fix_by_offset_def LinterOffense_def
        LinterOffenseSeverity_def InlineFixRange_def InlineFixOffset_def
        InlineFixPosition_def get_prop_def)
  have p: "prop_of (sample_offense 3 0 3 10 fix_by_offset) ''inlineFix'' = Some fix_by_offset"
    by (simp add: sample_offense_def get_prop_def)
  have u: "fix_by_offset \<noteq> Undefined" by (simp add: fix_by_offset_def)
  show ?thesis by (rule inline_fix_some_shape [OF c p u])
qed

section \<open>The position fields\<close>





section \<open>The configuration record\<close>

text \<open>
  The sample configuration conforms whatever its capabilities are, and the second member of
  the intersection \<^verbatim>\<open>LinterConfigType & { [key in keyof LinterConfigType]: unknown }\<close>
  asks nothing that the first does not.
\<close>

lemma sample_config_conforms:
  "conforms (Obj (sample_config caps)) LinterConfig"
  by (simp add: sample_config_def LinterConfig_def LinterConfigType_def mapped_keyof_def
      Command_def get_prop_def)

lemma LinterConfig_adds_nothing:
  "conforms v LinterConfig = conforms v LinterConfigType"
  by (cases v)
    (auto simp add: LinterConfig_def LinterConfigType_def mapped_keyof_def split: option.splits)

text \<open>
  C4, as stated, fails in what it says of the type: \<^verbatim>\<open>LinterConfig\<close> has no index
  signature. The mapped type ranges over the keys of \<^verbatim>\<open>LinterConfigType\<close> and no
  other, so the type knows no property named \<^verbatim>\<open>extra\<close>.
\<close>

theorem config_declares_no_extra_key:
  "keyof (mapped_keyof LinterConfigType TUnknown) = keyof LinterConfigType
   \<and> ''extra'' \<notin> set (keyof LinterConfigType)
   \<and> \<not> declares LinterConfig ''extra''"
  by (simp add: keyof_def mapped_keyof_def LinterConfig_def LinterConfigType_def)

text \<open>
  C4, amended. A record that conforms to \<^verbatim>\<open>LinterConfig\<close> still conforms when a
  property outside the declared field set is added to it, with any value: object types
  are structurally open. The openness does not come from an index signature.
\<close>

theorem config_extra_keys:
  assumes "conforms (Obj ps) LinterConfig" and "k \<notin> set (keyof LinterConfigType)"
  shows "conforms (Obj (set_prop ps k x)) LinterConfig"
proof -
  have a: "conforms (Obj ps) LinterConfigType"
    and b: "conforms (Obj ps) (mapped_keyof LinterConfigType TUnknown)"
    using assms(1) by (simp_all add: LinterConfig_def)
  have "conforms (Obj (set_prop ps k x)) LinterConfigType"
    unfolding LinterConfigType_def
    by (rule conforms_set_prop [OF a [unfolded LinterConfigType_def]])
      (use assms(2) in \<open>auto simp: keyof_def LinterConfigType_def\<close>)
  moreover have "conforms (Obj (set_prop ps k x)) (mapped_keyof LinterConfigType TUnknown)"
    unfolding mapped_keyof_def LinterConfigType_def
    by (rule conforms_set_prop [OF b [unfolded mapped_keyof_def LinterConfigType_def]])
      (use assms(2) in \<open>auto simp: keyof_def LinterConfigType_def\<close>)
  ultimately show ?thesis by (simp add: LinterConfig_def)
qed

theorem config_extra_keys_witness:
  "conforms (Obj (set_prop (sample_config [''fix-one'']) ''extra'' (Num 1))) LinterConfig"
proof -
  have c: "conforms (Obj (sample_config [''fix-one''])) LinterConfig"
    by (rule sample_config_conforms)
  have k: "''extra'' \<notin> set (keyof LinterConfigType)"
    by (simp add: keyof_def LinterConfigType_def)
  show ?thesis by (rule config_extra_keys [OF c k])
qed

text \<open>
  C6, as stated, fails: \<^verbatim>\<open>capabilities\<close> is declared \<^verbatim>\<open>string[]\<close>. A configuration
  whose only capability is \<^verbatim>\<open>lint-on-save\<close>, which is not among the six documented
  names, conforms to \<^verbatim>\<open>LinterConfig\<close>.
\<close>

theorem unlisted_capability_conforms:
  "conforms (Obj (sample_config [''lint-on-save''])) LinterConfig
   \<and> get_prop (sample_config [''lint-on-save'']) ''capabilities'' = Some (Arr [Str ''lint-on-save''])
   \<and> ''lint-on-save'' \<notin> set documented_capabilities"
  by (simp add: sample_config_def LinterConfig_def LinterConfigType_def mapped_keyof_def
      Command_def get_prop_def documented_capabilities_def)

text \<open>
  C6, amended. For every record that conforms to \<^verbatim>\<open>LinterConfig\<close>, the
  \<^verbatim>\<open>capabilities\<close> property is an array whose elements are all strings; and any list of
  strings is admissible there, the six documented names included: replacing the
  capabilities by any list of strings keeps the record conforming.
\<close>

theorem capabilities_any_strings:
  assumes "conforms (Obj ps) LinterConfig"
  shows "(\<exists>xs. get_prop ps ''capabilities'' = Some (Arr xs) \<and> (\<forall>x \<in> set xs. \<exists>s. x = Str s))
         \<and> conforms (Obj (set_prop ps ''capabilities'' (Arr (map Str caps)))) LinterConfig"
proof
  have a: "conforms (Obj ps) LinterConfigType"
    and b: "conforms (Obj ps) (mapped_keyof LinterConfigType TUnknown)"
    using assms by (simp_all add: LinterConfig_def)
  have "\<exists>x. prop_of (Obj ps) ''capabilities'' = Some x \<and> conforms x (TArray TString)"
    using a unfolding LinterConfigType_def by (rule conforms_required) simp
  then show "\<exists>xs. get_prop ps ''capabilities'' = Some (Arr xs) \<and> (\<forall>x \<in> set xs. \<exists>s. x = Str s)"
    by (auto dest!: conforms_string_array simp del: conforms.simps)
  have "conforms (Obj (set_prop ps ''capabilities'' (Arr (map Str caps)))) LinterConfigType"
    unfolding LinterConfigType_def
    by (rule conforms_set_prop [OF a [unfolded LinterConfigType_def]]) auto
  moreover have "conforms (Obj (set_prop ps ''capabilities'' (Arr (map Str caps))))
      (mapped_keyof LinterConfigType TUnknown)"
    unfolding mapped_keyof_def LinterConfigType_def
    by (rule conforms_set_prop [OF b [unfolded mapped_keyof_def LinterConfigType_def]]) auto
  ultimately show "conforms (Obj (set_prop ps ''capabilities'' (Arr (map Str caps)))) LinterConfig"
    by (simp add: LinterConfig_def)
qed

theorem capabilities_any_strings_witness:
  "(\<exists>xs. get_prop (sample_config [''fix-one'']) ''capabilities'' = Some (Arr xs)
         \<and> (\<forall>x \<in> set xs. \<exists>s. x = Str s))
   \<and> conforms (Obj (set_prop (sample_config [''fix-one'']) ''capabilities''
                  (Arr (map Str documented_capabilities)))) LinterConfig"
proof -
  have c: "conforms (Obj (sample_config [''fix-one''])) LinterConfig"
    by (rule sample_config_conforms)
  show ?thesis by (rule capabilities_any_strings [OF c])
qed

section \<open>The adapter contract\<close>

text \<open>
  C7. In \<^verbatim>\<open>Linter\<close>, \<^verbatim>\<open>getOffenses\<close> is the only required property and the four other
  operations are optional: a record with \<^verbatim>\<open>getOffenses\<close> alone conforms, and every
  conforming record has a function under \<^verbatim>\<open>getOffenses\<close>.
\<close>

theorem get_offenses_only_mandatory:
  "required_fields Linter = [''getOffenses'']
   \<and> optional_fields Linter = [''getIgnoreEolPragma'', ''getIgnoreLinePragma'',
                                ''getIgnoreFilePragma'', ''parseFixOutput'']
   \<and> conforms (Obj [(''getOffenses'', Fn f)]) Linter
   \<and> (conforms v Linter \<longrightarrow> (\<exists>g. prop_of v ''getOffenses'' = Some (Fn g)))"
proof -
  have "\<exists>g. prop_of v ''getOffenses'' = Some (Fn g)" if c: "conforms v Linter"
  proof -
    have "\<exists>x. prop_of v ''getOffenses'' = Some x \<and> conforms x LinterGetOffensesFunction"
      using c unfolding Linter_def by (rule conforms_required) simp
    then obtain x where x: "prop_of v ''getOffenses'' = Some x"
      and cx: "conforms x LinterGetOffensesFunction" by blast
    from cx obtain g where "x = Fn g"
      by (cases x) (simp_all add: LinterGetOffensesFunction_def)
    with x show ?thesis by simp
  qed
  then show ?thesis
    by (simp add: required_fields_def optional_fields_def Linter_def get_prop_def
        LinterGetOffensesFunction_def)
qed

theorem get_offenses_only_mandatory_witness:
  "conforms (Obj [(''getOffenses'', Fn ''parse'')]) Linter
   \<and> (\<exists>g. prop_of (Obj [(''getOffenses'', Fn ''parse'')]) ''getOffenses'' = Some (Fn g))"
  using get_offenses_only_mandatory [of "''parse''" "Obj [(''getOffenses'', Fn ''parse'')]"]
  by blast

text \<open>
  C3, as stated, fails on the older declarations: in \<^verbatim>\<open>src/unnamed/part_000\<close>
  \<^verbatim>\<open>getOffenses\<close> is typed to return \<^verbatim>\<open>LinterOffense[]\<close>, not a promise.
\<close>

theorem part_000_get_offenses_synchronous:
  "field_type Linter_part_000 ''getOffenses'' = Some LinterGetOffensesFunction_part_000
   \<and> result_type LinterGetOffensesFunction_part_000 = Some (TArray LinterOffense_part_000)
   \<and> \<not> returns_promise LinterGetOffensesFunction_part_000"
  by (simp add: field_type_def Linter_part_000_def LinterGetOffensesFunction_part_000_def)

text \<open>
  C3, amended. In \<^verbatim>\<open>src/out/index.d.ts\<close> the operations of \<^verbatim>\<open>Linter\<close> are
  \<^verbatim>\<open>getOffenses\<close>, \<^verbatim>\<open>getIgnoreEolPragma\<close>, \<^verbatim>\<open>getIgnoreLinePragma\<close>,
  \<^verbatim>\<open>getIgnoreFilePragma\<close> and \<^verbatim>\<open>parseFixOutput\<close>, and each is typed to return a
  promise: \<^verbatim>\<open>getOffenses\<close> a promise of an array of \<^verbatim>\<open>LinterOffense\<close>, the four
  others a promise of a string. In the older \<^verbatim>\<open>src/unnamed/part_000\<close> the same five
  are typed synchronously: \<^verbatim>\<open>getOffenses\<close> returns an array of that file's
  \<^verbatim>\<open>LinterOffense\<close>, the four others return a string, and none returns a promise.
\<close>

theorem operations_return_promise:
  "keyof Linter = [''getOffenses'', ''getIgnoreEolPragma'', ''getIgnoreLinePragma'',
                    ''getIgnoreFilePragma'', ''parseFixOutput'']
   \<and> (\<forall>k \<in> set (keyof Linter). \<exists>t. field_type Linter k = Some t \<and> returns_promise t)
   \<and> Option.bind (field_type Linter ''getOffenses'') result_type
       = Some (TPromise (TArray LinterOffense))
   \<and> (\<forall>k \<in> set [''getIgnoreEolPragma'', ''getIgnoreLinePragma'',
                   ''getIgnoreFilePragma'', ''parseFixOutput''].
         Option.bind (field_type Linter k) result_type = Some (TPromise TString))
   \<and> keyof Linter_part_000 = [''getOffenses'', ''getIgnoreEolPragma'', ''getIgnoreLinePragma'',
                               ''getIgnoreFilePragma'', ''parseFixOutput'']
   \<and> (\<forall>k \<in> set (keyof Linter_part_000).
         \<exists>t. field_type Linter_part_000 k = Some t \<and> \<not> returns_promise t)
   \<and> Option.bind (field_type Linter_part_000 ''getOffenses'') result_type
       = Some (TArray LinterOffense_part_000)
   \<and> (\<forall>k \<in> set [''getIgnoreEolPragma'', ''getIgnoreLinePragma'',
                   ''getIgnoreFilePragma'', ''parseFixOutput''].
         Option.bind (field_type Linter_part_000 k) result_type = Some TString)"
  by (auto simp add: keyof_def field_type_def Linter_def Linter_part_000_def
      LinterGetOffensesFunction_def LinterGetIgnoreEolPragmaFunction_def
      LinterGetIgnoreLinePragmaFunction_def LinterGetIgnoreFilePragmaFunction_def
      LinterParseFixOutputFunction_def
      LinterGetOffensesFunction_part_000_def LinterGetIgnoreEolPragmaFunction_part_000_def
      LinterGetIgnoreLinePragmaFunction_part_000_def LinterGetIgnoreFilePragmaFunction_part_000_def
      LinterParseFixOutputFunction_part_000_def)

theorem operations_return_promise_witness:
  "Option.bind (field_type Linter ''parseFixOutput'') result_type = Some (TPromise TString)
   \<and> (\<exists>t. field_type Linter ''getIgnoreEolPragma'' = Some t \<and> returns_promise t)
   \<and> Option.bind (field_type Linter_part_000 ''parseFixOutput'') result_type = Some TString
   \<and> (\<exists>t. field_type Linter_part_000 ''getIgnoreEolPragma'' = Some t \<and> \<not> returns_promise t)"
  using operations_return_promise
  by (simp add: keyof_def Linter_def Linter_part_000_def)

section \<open>The two declarations of the offense record\<close>

text \<open>
  C10. Every field of \<^verbatim>\<open>LinterOffense\<close> in \<^verbatim>\<open>src/unnamed/part_000\<close> is declared in
  \<^verbatim>\<open>src/out/index.d.ts\<close> with the same type and the same optionality, and the newer
  declaration is the older one followed by two added optional fields, \<^verbatim>\<open>inlineFix\<close>
  and \<^verbatim>\<open>meta\<close>.
\<close>

theorem offense_extends_part_000:
  "(\<forall>k \<in> set (keyof LinterOffense_part_000).
      field_type LinterOffense k = field_type LinterOffense_part_000 k
      \<and> field_optional LinterOffense k = field_optional LinterOffense_part_000 k)
   \<and> fields LinterOffense =
       fields LinterOffense_part_000
       @ [(''inlineFix'', True, TUnion InlineFixRange InlineFixOffset),
          (''meta'', True, TUnknown)]"
  by (simp add: keyof_def field_type_def field_optional_def LinterOffense_def
      LinterOffense_part_000_def)

theorem offense_extends_part_000_witness:
  "field_type LinterOffense ''severity'' = Some LinterOffenseSeverity
   \<and> field_type LinterOffense_part_000 ''severity'' = Some LinterOffenseSeverity
   \<and> field_optional LinterOffense ''docsUrl'' = Some True
   \<and> field_optional LinterOffense_part_000 ''docsUrl'' = Some True"
  using offense_extends_part_000
  by (simp add: keyof_def field_type_def field_optional_def LinterOffense_part_000_def)

end
